theory Spec2Isabelle
  imports Main "HOL-Library.AList"
begin

section \<open>The periodicity detector\<close>

text \<open>
  \<^verbatim>\<open>
  def is_eventually_periodic(f, x, giveup=1000):
      tortoise, hare = x, f(x)
      while tortoise != hare and giveup > 0:
          tortoise = f(tortoise)
          hare = f(f(hare))
          giveup -= 1
      return tortoise == hare
  \<close>
  The iterated function is a pure function on any type with equality; Python's integers
  are unbounded, so \<open>giveup\<close> is an \<open>int\<close> (a budget that is zero or negative runs no
  round). The \<open>while\<close> loop is the recursive function \<open>periodic_while\<close> on the three
  variables the loop changes; the budget decreases in every round.
\<close>

function periodic_while :: "('a \<Rightarrow> 'a) \<Rightarrow> 'a \<Rightarrow> 'a \<Rightarrow> int \<Rightarrow> bool" where
  "periodic_while f tortoise hare giveup =
     (if tortoise \<noteq> hare \<and> giveup > 0
      then periodic_while f (f tortoise) (f (f hare)) (giveup - 1)
      else tortoise = hare)"
  by pat_completeness auto
termination
  by (relation "measure (\<lambda>(f, tortoise, hare, giveup). nat giveup)") auto

declare periodic_while.simps [simp del]

definition is_eventually_periodic :: "('a \<Rightarrow> 'a) \<Rightarrow> 'a \<Rightarrow> int \<Rightarrow> bool" where
  "is_eventually_periodic f x giveup = periodic_while f x (f x) giveup"

text \<open>The call without the third argument takes the default \<open>giveup=1000\<close>.\<close>

definition is_eventually_periodic_default :: "('a \<Rightarrow> 'a) \<Rightarrow> 'a \<Rightarrow> bool" where
  "is_eventually_periodic_default f x = is_eventually_periodic f x 1000"

text \<open>
  The detector as the specification words it (section 4.3): the tortoise starts at the
  image of the seed under one application, the hare at the seed under two applications;
  the walk stops with true the moment the two are equal, and with false once
  \<open>max_steps\<close> rounds have passed without a match; a round moves the tortoise by one
  application and the hare by two.
\<close>

function spec_rounds :: "('a \<Rightarrow> 'a) \<Rightarrow> 'a \<Rightarrow> 'a \<Rightarrow> int \<Rightarrow> bool" where
  "spec_rounds f tortoise hare rounds_left =
     (if tortoise = hare then True
      else if rounds_left \<le> 0 then False
      else spec_rounds f (f tortoise) (f (f hare)) (rounds_left - 1))"
  by pat_completeness auto
termination
  by (relation "measure (\<lambda>(f, tortoise, hare, rounds_left). nat rounds_left)") auto

declare spec_rounds.simps [simp del]

definition detect_periodicity_spec :: "('a \<Rightarrow> 'a) \<Rightarrow> 'a \<Rightarrow> int \<Rightarrow> bool" where
  "detect_periodicity_spec f x0 max_steps = spec_rounds f (f x0) (f (f x0)) max_steps"

section \<open>Values, function objects and the program state\<close>

text \<open>
  The Python values the combinators handle. A function is a reference to a function
  object, so that \<open>is\<close> on functions is equality of references. Lists are the mutable
  composite values: they cannot be hashed, and neither can a tuple that holds one.
  On these values Python's \<open>==\<close> of dictionary keys is HOL's equality.
\<close>

type_synonym ref = nat

datatype val =
    VNone
  | VInt int
  | VStr string
  | VList "val list"
  | VTuple "val list"
  | VFun ref

fun hashable :: "val \<Rightarrow> bool" where
  "hashable VNone = True"
| "hashable (VInt i) = True"
| "hashable (VStr s) = True"
| "hashable (VList vs) = False"
| "hashable (VTuple vs) = list_all hashable vs"
| "hashable (VFun r) = True"

datatype py_error =
    TypeError string
  | NameError string
  | RecursionError
  | Raised string

type_synonym kwargs = "(string \<times> val) list"

type_synonym result = "py_error + val"

text \<open>
  The function objects of the program:
  \<^item> \<open>Pure p\<close>: a function of the client that has no effect; its result (or the
    exception it raises) depends on the positional and keyword arguments only;
  \<^item> \<open>Def_memoize\<close>: the function that \<^verbatim>\<open>def memoize(f)\<close> (line 117) creates;
  \<^item> \<open>Lookup_f f results\<close>: a closure \<^verbatim>\<open>lookup_f\<close> (line 120) with the two variables it
    captures, the wrapped \<open>f\<close> and the dictionary \<open>results\<close> (also reachable as the
    attribute \<^verbatim>\<open>lookup_f.results\<close>, the same object). The dictionary keeps insertion
    order; its keys are argument tuples;
  \<^item> \<open>Cf f count\<close>: a closure \<^verbatim>\<open>cf\<close> of \<^verbatim>\<open>counter\<close> (line 322) with the wrapped \<open>f\<close>
    and the cell \<^verbatim>\<open>count[0]\<close>;
  \<^item> \<open>Def_fib\<close>: the function that \<^verbatim>\<open>def fib(n)\<close> (line 136) creates; its body calls
    whatever the global name \<^verbatim>\<open>fib\<close> is bound to at that moment.
\<close>

datatype func =
    Pure "val list \<Rightarrow> kwargs \<Rightarrow> result"
  | Def_memoize
  | Lookup_f val "(val list \<times> val) list"
  | Cf val int
  | Def_fib

text \<open>
  The state: the function objects by address (a new object takes the next address, and
  no object is ever freed), and the module's global names.
\<close>

record state =
  heap :: "func list"
  globals :: "string \<rightharpoonup> val"

definition alloc :: "state \<Rightarrow> func \<Rightarrow> val \<times> state" where
  "alloc st obj = (VFun (length (heap st)), st\<lparr>heap := heap st @ [obj]\<rparr>)"

text \<open>
  \<^verbatim>\<open>
  def memoize(f):
      results = {}
      def lookup_f(*args): ...
      lookup_f.results = results
      return lookup_f
  \<close>
  A call creates a new closure with an empty dictionary.
\<close>

definition memoize :: "state \<Rightarrow> val \<Rightarrow> val \<times> state" where
  "memoize st f = alloc st (Lookup_f f [])"

text \<open>
  \<^verbatim>\<open>
  def counter(f):
      count = [0]
      def cf(*args, **kwargs): ...
      cf.get_count = get_count
      cf.reset_count = reset_count
      return cf
  \<close>
\<close>

definition counter :: "state \<Rightarrow> val \<Rightarrow> val \<times> state" where
  "counter st f = alloc st (Cf f 0)"

text \<open>
  The attributes \<^verbatim>\<open>get_count\<close> and \<^verbatim>\<open>reset_count\<close> of a counting closure, and
  \<^verbatim>\<open>len(g.results)\<close> and \<^verbatim>\<open>g.results\<close> of a memoizing one. Python raises
  \<^verbatim>\<open>AttributeError\<close> on an object that has no such attribute: \<open>None\<close> here.
\<close>

definition get_count :: "state \<Rightarrow> val \<Rightarrow> int option" where
  "get_count st h =
     (case h of
        VFun r \<Rightarrow>
          (if r < length (heap st)
           then (case heap st ! r of Cf f count \<Rightarrow> Some count | _ \<Rightarrow> None)
           else None)
      | _ \<Rightarrow> None)"

definition reset_count :: "state \<Rightarrow> val \<Rightarrow> state option" where
  "reset_count st h =
     (case h of
        VFun r \<Rightarrow>
          (if r < length (heap st)
           then (case heap st ! r of
                   Cf f count \<Rightarrow> Some (st\<lparr>heap := (heap st)[r := Cf f 0]\<rparr>)
                 | _ \<Rightarrow> None)
           else None)
      | _ \<Rightarrow> None)"

definition results_of :: "state \<Rightarrow> val \<Rightarrow> (val list \<times> val) list option" where
  "results_of st g =
     (case g of
        VFun r \<Rightarrow>
          (if r < length (heap st)
           then (case heap st ! r of Lookup_f f results \<Rightarrow> Some results | _ \<Rightarrow> None)
           else None)
      | _ \<Rightarrow> None)"

definition len_results :: "state \<Rightarrow> val \<Rightarrow> nat option" where
  "len_results st g = map_option length (results_of st g)"

text \<open>
  Binding the arguments of a call to the one parameter of \<^verbatim>\<open>def memoize(f)\<close> or
  \<^verbatim>\<open>def fib(n)\<close>: one positional argument, or the parameter by its name.
\<close>

fun bind1 :: "string \<Rightarrow> val list \<Rightarrow> kwargs \<Rightarrow> result" where
  "bind1 p [v] [] = Inr v"
| "bind1 p [] [(k, v)] =
     (if k = p then Inr v else Inl (TypeError ''unexpected keyword argument''))"
| "bind1 p args kw = Inl (TypeError ''wrong arguments'')"

text \<open>Python's \<open>+\<close> on the values of the model.\<close>

fun py_add :: "val \<Rightarrow> val \<Rightarrow> result" where
  "py_add (VInt a) (VInt b) = Inr (VInt (a + b))"
| "py_add (VStr a) (VStr b) = Inr (VStr (a @ b))"
| "py_add (VList a) (VList b) = Inr (VList (a @ b))"
| "py_add (VTuple a) (VTuple b) = Inr (VTuple (a @ b))"
| "py_add a b = Inl (TypeError ''unsupported operand types for +'')"

text \<open>
  \<^verbatim>\<open>results[args] = res\<close> in the closure at address \<open>r\<close>: the dictionary is
  the one the closure holds now, a present key keeps its place and takes the new value,
  a new key goes to the end.
\<close>

definition store_result :: "state \<Rightarrow> ref \<Rightarrow> val list \<Rightarrow> val \<Rightarrow> state" where
  "store_result st r args res =
     (case heap st ! r of
        Lookup_f f results \<Rightarrow>
          st\<lparr>heap := (heap st)[r := Lookup_f f (AList.update args res results)]\<rparr>
      | _ \<Rightarrow> st)"

text \<open>\<^verbatim>\<open>results.get(args, None)\<close>.\<close>

definition dict_get :: "(val list \<times> val) list \<Rightarrow> val list \<Rightarrow> val" where
  "dict_get results args = (case map_of results args of None \<Rightarrow> VNone | Some v \<Rightarrow> v)"

section \<open>Calling a function object\<close>

text \<open>
  \<open>call d st fv args kw\<close> is the call \<^verbatim>\<open>fv(*args, **kw)\<close> in state \<open>st\<close>, with room
  for \<open>d\<close> more frames on the interpreter's stack: Python raises \<^verbatim>\<open>RecursionError\<close>
  when a call would exceed its recursion limit. The result is the returned value or the
  exception raised, together with the state the call leaves behind (an exception does
  not undo the effects that came before it).

  \<^verbatim>\<open>
  def lookup_f(*args):
      res = results.get(args, None)
      if res is None:
          res = f(*args)       # calculate the result
          results[args] = res  # and store it in dictionary
      return res

  def cf(*args, **kwargs):
      nonlocal count
      count[0] += 1
      return f(*args, **kwargs)

  def fib(n):
      if n < 2:
          return 1
      else:
          return fib(n-1) + fib(n-2)
  \<close>
  \<^verbatim>\<open>lookup_f\<close> has no \<^verbatim>\<open>**kwargs\<close> parameter, so a keyword argument is a
  \<^verbatim>\<open>TypeError\<close> of the call itself; \<^verbatim>\<open>results.get\<close> hashes the tuple of arguments and
  raises \<^verbatim>\<open>TypeError\<close> when an element cannot be hashed.
\<close>

fun call :: "nat \<Rightarrow> state \<Rightarrow> val \<Rightarrow> val list \<Rightarrow> kwargs \<Rightarrow> result \<times> state" where
  "call 0 st fv args kw = (Inl RecursionError, st)"
| "call (Suc d) st fv args kw =
     (case fv of
        VFun r \<Rightarrow>
          (if r < length (heap st) then
             (case heap st ! r of
                Pure p \<Rightarrow> (p args kw, st)
              | Def_memoize \<Rightarrow>
                  (case bind1 ''f'' args kw of
                     Inl e \<Rightarrow> (Inl e, st)
                   | Inr f \<Rightarrow> (case memoize st f of (g, st') \<Rightarrow> (Inr g, st')))
              | Lookup_f f results \<Rightarrow>
                  (if kw \<noteq> [] then (Inl (TypeError ''unexpected keyword argument''), st)
                   else if \<not> list_all hashable args
                     then (Inl (TypeError ''unhashable type''), st)
                   else if dict_get results args = VNone then
                     (case call d st f args [] of
                        (Inl e, st') \<Rightarrow> (Inl e, st')
                      | (Inr res, st') \<Rightarrow> (Inr res, store_result st' r args res))
                   else (Inr (dict_get results args), st))
              | Cf f count \<Rightarrow>
                  call d (st\<lparr>heap := (heap st)[r := Cf f (count + 1)]\<rparr>) f args kw
              | Def_fib \<Rightarrow>
                  (case bind1 ''n'' args kw of
                     Inl e \<Rightarrow> (Inl e, st)
                   | Inr (VInt n) \<Rightarrow>
                       (if n < 2 then (Inr (VInt 1), st)
                        else
                          (case globals st ''fib'' of
                             None \<Rightarrow> (Inl (NameError ''fib''), st)
                           | Some g1 \<Rightarrow>
                               (case call d st g1 [VInt (n - 1)] [] of
                                  (Inl e, st1) \<Rightarrow> (Inl e, st1)
                                | (Inr a, st1) \<Rightarrow>
                                    (case globals st1 ''fib'' of
                                       None \<Rightarrow> (Inl (NameError ''fib''), st1)
                                     | Some g2 \<Rightarrow>
                                         (case call d st1 g2 [VInt (n - 2)] [] of
                                            (Inl e, st2) \<Rightarrow> (Inl e, st2)
                                          | (Inr b, st2) \<Rightarrow> (py_add a b, st2))))))
                   | Inr v \<Rightarrow> (Inl (TypeError ''< not supported''), st)))
           else (Inl (TypeError ''object is not callable''), st))
      | _ \<Rightarrow> (Inl (TypeError ''object is not callable''), st))"

section \<open>Statements of the module\<close>

text \<open>
  A statement \<^verbatim>\<open>x = g(y)\<close> on global names, as \<^verbatim>\<open>fib = memoize(fib)\<close> (line 145) and
  \<^verbatim>\<open>memoize = memoize(memoize)\<close> (line 216): the callee and the argument are looked up,
  the call is made, and the name \<open>x\<close> is bound to the result. A name that is not bound
  raises \<^verbatim>\<open>NameError\<close>, and an exception leaves \<open>x\<close> as it was.
\<close>

definition assign_call :: "nat \<Rightarrow> state \<Rightarrow> string \<Rightarrow> string \<Rightarrow> string \<Rightarrow> result \<times> state" where
  "assign_call d st x g y =
     (case globals st g of
        None \<Rightarrow> (Inl (NameError g), st)
      | Some gv \<Rightarrow>
          (case globals st y of
             None \<Rightarrow> (Inl (NameError y), st)
           | Some yv \<Rightarrow>
               (case call d st gv [yv] [] of
                  (Inl e, st') \<Rightarrow> (Inl e, st')
                | (Inr w, st') \<Rightarrow> (Inr w, st'\<lparr>globals := (globals st')(x \<mapsto> w)\<rparr>))))"

text \<open>A call \<^verbatim>\<open>g(a1, ..., an)\<close> of a global name with positional arguments.\<close>

definition call_global :: "nat \<Rightarrow> state \<Rightarrow> string \<Rightarrow> val list \<Rightarrow> result \<times> state" where
  "call_global d st g args =
     (case globals st g of
        None \<Rightarrow> (Inl (NameError g), st)
      | Some gv \<Rightarrow> call d st gv args [])"

text \<open>
  The state after the two \<^verbatim>\<open>def\<close> statements of lines 117 and 136: each created a
  function object and bound its name.
\<close>

definition module_state :: state where
  "module_state =
     \<lparr>heap = [Def_memoize, Def_fib],
      globals = [''memoize'' \<mapsto> VFun 0, ''fib'' \<mapsto> VFun 1]\<rparr>"

text \<open>Two calls in a row of the same function object with the same positional arguments.\<close>

definition call_twice :: "nat \<Rightarrow> state \<Rightarrow> val \<Rightarrow> val list \<Rightarrow> result \<times> result \<times> state" where
  "call_twice d st g args =
     (case call d st g args [] of
        (r1, st1) \<Rightarrow> (case call d st1 g args [] of (r2, st2) \<Rightarrow> (r1, r2, st2)))"

text \<open>
  The expression \<^verbatim>\<open>memoize(memoize(f)) is memoize(f)\<close>, evaluated from left to right
  through the global name \<^verbatim>\<open>memoize\<close>: the value of the comparison, with the two
  objects compared.
\<close>

definition rewrap_is_wrap :: "nat \<Rightarrow> state \<Rightarrow> val \<Rightarrow> (py_error + bool \<times> val \<times> val) \<times> state" where
  "rewrap_is_wrap d st f =
     (case call_global d st ''memoize'' [f] of
        (Inl e, st1) \<Rightarrow> (Inl e, st1)
      | (Inr g, st1) \<Rightarrow>
          (case call_global d st1 ''memoize'' [g] of
             (Inl e, st2) \<Rightarrow> (Inl e, st2)
           | (Inr gg, st2) \<Rightarrow>
               (case call_global d st2 ''memoize'' [f] of
                  (Inl e, st3) \<Rightarrow> (Inl e, st3)
                | (Inr g', st3) \<Rightarrow> (Inr (gg = g', gg, g'), st3))))"

text \<open>
  Two functions of a client. \<^verbatim>\<open>def kf(x): return x\<close> is line 342 of the source;
  \<^verbatim>\<open>def nothing(x): return None\<close> is a function whose result is \<^verbatim>\<open>None\<close>.
\<close>

definition kf :: "val list \<Rightarrow> kwargs \<Rightarrow> result" where
  "kf args kw = bind1 ''x'' args kw"

definition nothing :: "val list \<Rightarrow> kwargs \<Rightarrow> result" where
  "nothing args kw = (case bind1 ''x'' args kw of Inl e \<Rightarrow> Inl e | Inr x \<Rightarrow> Inr VNone)"

text \<open>
  \<^verbatim>\<open>h = counter(f); g = memoize(h)\<close> and \<^verbatim>\<open>g = memoize(f); h = counter(g)\<close> with the
  functions of lines 117 and 319: the counting closure, the memoizing closure and the
  state.
\<close>

definition memoize_counter :: "state \<Rightarrow> val \<Rightarrow> val \<times> val \<times> state" where
  "memoize_counter st f =
     (case counter st f of (h, st1) \<Rightarrow> (case memoize st1 h of (g, st2) \<Rightarrow> (h, g, st2)))"

definition counter_memoize :: "state \<Rightarrow> val \<Rightarrow> val \<times> val \<times> state" where
  "counter_memoize st f =
     (case memoize st f of (g, st1) \<Rightarrow> (case counter st1 g of (h, st2) \<Rightarrow> (h, g, st2)))"

section \<open>Properties of the periodicity detector\<close>

text \<open>
  After \<open>k\<close> rounds the tortoise has moved \<open>k\<close> applications and the hare \<open>2 * k\<close>, so
  the loop answers whether some round within the budget brings the two together.
\<close>

lemma periodic_while_iterates:
  "periodic_while f t h n = (\<exists>k. k \<le> nat n \<and> (f ^^ k) t = (f ^^ (2 * k)) h)"
proof (induction f t h n rule: periodic_while.induct)
  case (1 f tortoise hare giveup)
  show ?case
  proof (cases "tortoise \<noteq> hare \<and> giveup > 0")
    case True
    then have ne: "tortoise \<noteq> hare" and pos: "giveup > 0" by simp_all
    have "periodic_while f tortoise hare giveup
            = periodic_while f (f tortoise) (f (f hare)) (giveup - 1)"
      using True by (subst periodic_while.simps) simp
    also have "\<dots> = (\<exists>j. j \<le> nat (giveup - 1)
                        \<and> (f ^^ j) (f tortoise) = (f ^^ (2 * j)) (f (f hare)))"
      using "1.IH" [OF True] .
    also have "\<dots> = (\<exists>k. k \<le> nat giveup \<and> (f ^^ k) tortoise = (f ^^ (2 * k)) hare)"
    proof
      assume "\<exists>j. j \<le> nat (giveup - 1)
                \<and> (f ^^ j) (f tortoise) = (f ^^ (2 * j)) (f (f hare))"
      then obtain j where j: "j \<le> nat (giveup - 1)"
        and eq: "(f ^^ j) (f tortoise) = (f ^^ (2 * j)) (f (f hare))" by blast
      have "Suc j \<le> nat giveup" using j pos by linarith
      moreover have "(f ^^ Suc j) tortoise = (f ^^ (2 * Suc j)) hare"
        using eq by (simp add: funpow_swap1)
      ultimately show "\<exists>k. k \<le> nat giveup \<and> (f ^^ k) tortoise = (f ^^ (2 * k)) hare"
        by blast
    next
      assume "\<exists>k. k \<le> nat giveup \<and> (f ^^ k) tortoise = (f ^^ (2 * k)) hare"
      then obtain k where k: "k \<le> nat giveup"
        and eq: "(f ^^ k) tortoise = (f ^^ (2 * k)) hare" by blast
      from eq ne obtain j where kj: "k = Suc j" by (cases k) auto
      have "j \<le> nat (giveup - 1)" using k kj by linarith
      moreover have "(f ^^ j) (f tortoise) = (f ^^ (2 * j)) (f (f hare))"
        using eq kj by (simp add: funpow_swap1)
      ultimately show "\<exists>j. j \<le> nat (giveup - 1)
          \<and> (f ^^ j) (f tortoise) = (f ^^ (2 * j)) (f (f hare))" by blast
    qed
    finally show ?thesis .
  next
    case False
    have lhs: "periodic_while f tortoise hare giveup = (tortoise = hare)"
      using False by (subst periodic_while.simps) auto
    show ?thesis
    proof (cases "tortoise = hare")
      case True
      have "(0::nat) \<le> nat giveup \<and> (f ^^ 0) tortoise = (f ^^ (2 * 0)) hare"
        using True by simp
      then have "\<exists>k. k \<le> nat giveup \<and> (f ^^ k) tortoise = (f ^^ (2 * k)) hare"
        by blast
      then show ?thesis using True lhs by simp
    next
      case ne: False
      with False have "giveup \<le> 0" by simp
      then have "nat giveup = 0" by simp
      then show ?thesis using ne lhs by auto
    qed
  qed
qed

text \<open>
  The loop of the specification is the loop of the source: the two differ in where the
  cursors start, not in how they walk.
\<close>

lemma spec_rounds_periodic_while: "spec_rounds f t h n = periodic_while f t h n"
proof (induction f t h n rule: periodic_while.induct)
  case (1 f tortoise hare giveup)
  show ?case
    using 1 by (subst spec_rounds.simps, subst periodic_while.simps) auto
qed

lemma detect_periodicity_spec_shifted:
  "detect_periodicity_spec f x0 max_steps = is_eventually_periodic f (f x0) max_steps"
  by (simp add: detect_periodicity_spec_def is_eventually_periodic_def
      spec_rounds_periodic_while)

lemma periodic_while_successor:
  "t < h \<Longrightarrow> \<not> periodic_while (\<lambda>x::int. x + 1) t h n"
proof (induction "\<lambda>x::int. x + 1" t h n rule: periodic_while.induct)
  case (1 tortoise hare giveup)
  then show ?case by (subst periodic_while.simps) auto
qed

text \<open>
  Claim C4. The three concrete results of the detector: for \<open>f(x) = (x * x + 1) mod 255\<close>
  from the seed 2 it returns true with the default bound of 1000 (five rounds already
  suffice); for \<open>f(x) = x + 1\<close> on the integers it returns false for every seed with the
  bound 1000; for the constant function \<open>f(x) = 1\<close> from the seed 5 it returns true
  after the first round (a budget of one round suffices, a budget of none does not).
\<close>

theorem is_eventually_periodic_cases:
  "is_eventually_periodic_default (\<lambda>x::int. (x * x + 1) mod 255) 2
   \<and> is_eventually_periodic (\<lambda>x::int. (x * x + 1) mod 255) 2 5
   \<and> \<not> is_eventually_periodic (\<lambda>x::int. x + 1) x0 1000
   \<and> is_eventually_periodic_default (\<lambda>x::int. 1) 5
   \<and> is_eventually_periodic (\<lambda>x::int. 1) 5 1
   \<and> \<not> is_eventually_periodic (\<lambda>x::int. 1) 5 0"
  by (simp add: is_eventually_periodic_default_def is_eventually_periodic_def
      periodic_while_successor periodic_while.simps)

text \<open>
  Claim C5, as stated, fails: the source starts the tortoise at the seed and the hare at
  one application of \<open>f\<close>, not at one and two applications. The difference shows in
  the result. For the constant function and no round allowed, the specification's
  detector sees \<open>f(x0) = f(f(x0))\<close> at once, the source compares \<open>5\<close> with \<open>1\<close>. For
  a sequence \<open>0, 1, 2, 3, 2, 3, ...\<close> and one round allowed, the specification's
  detector finds \<open>2 = 2\<close> after its round, the source needs three rounds.
\<close>

theorem detector_start_differs_from_spec:
  "is_eventually_periodic (\<lambda>x::int. 1) 5 0 \<noteq> detect_periodicity_spec (\<lambda>x::int. 1) 5 0
   \<and> is_eventually_periodic (\<lambda>x::int. if x < 3 then x + 1 else 2) 0 1
       \<noteq> detect_periodicity_spec (\<lambda>x::int. if x < 3 then x + 1 else 2) 0 1"
  by (simp add: is_eventually_periodic_def detect_periodicity_spec_def
      periodic_while.simps spec_rounds.simps)

text \<open>
  Claim C5, amended. The detector starts the tortoise at the seed \<open>x0\<close> and the hare at
  \<open>f(x0)\<close>; each round moves the tortoise by one application of \<open>f\<close> and the hare by two;
  it returns true exactly when the two are equal at the start or after one of at most
  \<open>max_steps\<close> rounds, that is when \<open>f\<^sup>k(x0) = f\<^sup>2\<^sup>k\<^sup>+\<^sup>1(x0)\<close> for some \<open>k\<close> from \<open>0\<close> to
  \<open>max_steps\<close>, and false otherwise.
\<close>

theorem is_eventually_periodic_iterates:
  "is_eventually_periodic f x giveup
     = (\<exists>k. k \<le> nat giveup \<and> (f ^^ k) x = (f ^^ (2 * k + 1)) x)"
  by (simp add: is_eventually_periodic_def periodic_while_iterates funpow_swap1)

section \<open>Properties of the memoizer and the counter\<close>

subsection \<open>One call of a closure\<close>

lemma call_Pure:
  "r < length (heap st) \<Longrightarrow> heap st ! r = Pure p \<Longrightarrow>
   call (Suc d) st (VFun r) args kw = (p args kw, st)"
  by simp

lemma call_Lookup_f_keyword:
  "r < length (heap st) \<Longrightarrow> heap st ! r = Lookup_f f results \<Longrightarrow> kw \<noteq> [] \<Longrightarrow>
   call (Suc d) st (VFun r) args kw = (Inl (TypeError ''unexpected keyword argument''), st)"
  by simp

lemma call_Lookup_f_hit:
  "r < length (heap st) \<Longrightarrow> heap st ! r = Lookup_f f results \<Longrightarrow>
   list_all hashable args \<Longrightarrow> dict_get results args \<noteq> VNone \<Longrightarrow>
   call (Suc d) st (VFun r) args [] = (Inr (dict_get results args), st)"
  by simp

lemma call_Lookup_f_miss:
  "r < length (heap st) \<Longrightarrow> heap st ! r = Lookup_f f results \<Longrightarrow>
   list_all hashable args \<Longrightarrow> dict_get results args = VNone \<Longrightarrow>
   call (Suc d) st (VFun r) args [] =
     (case call d st f args [] of
        (Inl e, st') \<Rightarrow> (Inl e, st')
      | (Inr res, st') \<Rightarrow> (Inr res, store_result st' r args res))"
  by simp

lemma call_Cf:
  "r < length (heap st) \<Longrightarrow> heap st ! r = Cf f count \<Longrightarrow>
   call (Suc d) st (VFun r) args kw =
     call d (st\<lparr>heap := (heap st)[r := Cf f (count + 1)]\<rparr>) f args kw"
  by simp

text \<open>
  A memoized pure function returns what the function returns, whenever the dictionary
  holds for the arguments either nothing or the function's own result.
\<close>

lemma memoized_pure_result:
  assumes "r < length (heap st)" and "heap st ! r = Lookup_f (VFun q) results"
    and "q < length (heap st)" and "heap st ! q = Pure p"
    and "list_all hashable args"
    and "dict_get results args = VNone \<or> p args [] = Inr (dict_get results args)"
  shows "fst (call (Suc (Suc d)) st (VFun r) args []) = p args []"
  using assms by (auto split: sum.splits)

subsection \<open>The memoizer over the counter, and the counter over the memoizer\<close>

text \<open>
  \<^verbatim>\<open>h = counter(f); g = memoize(h)\<close> for a pure \<open>f\<close>, and two calls of \<open>g\<close> with the same
  arguments: both return what \<open>f\<close> returns, and the counter tells how often \<open>f\<close> ran:
  once when the result is a value other than \<^verbatim>\<open>None\<close>, twice when it is \<^verbatim>\<open>None\<close> or
  an exception.
\<close>

lemma memoize_counter_twice:
  assumes q: "q < length (heap st)" "heap st ! q = Pure p" and h: "list_all hashable args"
  shows "(case memoize_counter st (VFun q) of
            (h, g, st2) \<Rightarrow>
              (case call_twice (Suc (Suc (Suc d))) st2 g args of
                 (r1, r2, st3) \<Rightarrow> (r1, r2, get_count st3 h)))
         = (p args [], p args [],
            Some (if \<exists>v. p args [] = Inr v \<and> v \<noteq> VNone then 1 else 2))"
proof (cases "p args []")
  case (Inl e)
  then show ?thesis
    using q h
    by (simp add: memoize_counter_def memoize_def counter_def alloc_def call_twice_def
        get_count_def store_result_def dict_get_def nth_append)
next
  case (Inr v)
  then show ?thesis
    using q h
    by (cases "v = VNone")
       (simp_all add: memoize_counter_def memoize_def counter_def alloc_def call_twice_def
        get_count_def store_result_def dict_get_def nth_append list_update_append)
qed

text \<open>
  \<^verbatim>\<open>g = memoize(f); h = counter(g)\<close> and two calls of \<open>h\<close>: the counter is at 2 whatever
  the arguments are and whatever the calls return or raise.
\<close>

lemma counter_memoize_twice:
  assumes q: "q < length (heap st)" "heap st ! q = Pure p"
  shows "(case counter_memoize st (VFun q) of
            (h, g, st2) \<Rightarrow>
              (case call_twice (Suc (Suc (Suc d))) st2 h args of
                 (r1, r2, st3) \<Rightarrow> get_count st3 h))
         = Some 2"
proof (cases "list_all hashable args")
  case False
  then show ?thesis
    using q
    by (simp add: counter_memoize_def memoize_def counter_def alloc_def call_twice_def
        get_count_def nth_append list_update_append)
next
  case True
  show ?thesis
  proof (cases "p args []")
    case (Inl e)
    then show ?thesis
      using q True
      by (simp add: counter_memoize_def memoize_def counter_def alloc_def call_twice_def
          get_count_def store_result_def dict_get_def nth_append list_update_append)
  next
    case (Inr v)
    then show ?thesis
      using q True
      by (cases "v = VNone")
         (simp_all add: counter_memoize_def memoize_def counter_def alloc_def call_twice_def
          get_count_def store_result_def dict_get_def nth_append list_update_append)
  qed
qed

text \<open>
  For \<^verbatim>\<open>def kf(x): return x\<close> and an argument that can be hashed and is not \<^verbatim>\<open>None\<close>,
  the two orders of composition give the counts 2 and 1.
\<close>

lemma counter_ordering_kf:
  assumes q: "q < length (heap st)" "heap st ! q = Pure kf"
    and x: "hashable x" "x \<noteq> VNone"
  shows "(case counter_memoize st (VFun q) of
            (h, g, st2) \<Rightarrow>
              (case call_twice (Suc (Suc (Suc d))) st2 h [x] of
                 (r1, r2, st3) \<Rightarrow> get_count st3 h)) = Some 2"
    and "(case memoize_counter st (VFun q) of
            (h, g, st2) \<Rightarrow>
              (case call_twice (Suc (Suc (Suc d))) st2 g [x] of
                 (r1, r2, st3) \<Rightarrow> (r1, r2, get_count st3 h))) = (Inr x, Inr x, Some 1)"
  using counter_memoize_twice [OF q, of d "[x]"]
    memoize_counter_twice [OF q, of "[x]" d] x
  by (simp_all add: kf_def)

text \<open>
  Claim C1 does not hold on the source for a function whose result is \<^verbatim>\<open>None\<close>. The
  wrapper returns what the function returns (\<open>memoized_pure_result\<close>), and for a result
  other than \<^verbatim>\<open>None\<close> the second call does not run the function again
  (\<open>memoize_counter_twice\<close>). Line 124 stores a \<^verbatim>\<open>None\<close> result like any other, but
  line 122 reads a stored \<^verbatim>\<open>None\<close> as a missing key: with
  \<^verbatim>\<open>def nothing(x): return None\<close>, \<^verbatim>\<open>h = counter(nothing)\<close> and \<^verbatim>\<open>g = memoize(h)\<close>,
  the calls \<^verbatim>\<open>g(1); g(1)\<close> both return \<^verbatim>\<open>None\<close>, the dictionary holds the key
  \<^verbatim>\<open>(1,)\<close> with the value \<^verbatim>\<open>None\<close>, and the counter is at 2: the second call ran
  the function again.
\<close>

theorem memoize_None_result_recomputed:
  "(case memoize_counter \<lparr>heap = [Pure nothing], globals = Map.empty\<rparr> (VFun 0) of
      (h, g, st) \<Rightarrow>
        (case call_twice 5 st g [VInt 1] of
           (r1, r2, st') \<Rightarrow> (r1, r2, get_count st' h, results_of st' g)))
   = (Inr VNone, Inr VNone, Some 2, Some [([VInt 1], VNone)])"
  by (simp add: memoize_counter_def memoize_def counter_def alloc_def nothing_def
      call_twice_def get_count_def results_of_def store_result_def dict_get_def
      eval_nat_numeral)

text \<open>
  Claim C6 holds on the source for every argument but \<^verbatim>\<open>None\<close>
  (\<open>counter_ordering_kf\<close>; the outer counter of \<^verbatim>\<open>counter(memoize(kf))\<close> is at 2 for
  every argument, \<open>counter_memoize_twice\<close>). For the argument \<^verbatim>\<open>None\<close> the result of
  \<^verbatim>\<open>kf\<close> is \<^verbatim>\<open>None\<close>, which line 122 reads as a missing key: after two calls of
  \<^verbatim>\<open>memoize(counter(kf))\<close> with \<^verbatim>\<open>None\<close> the inner counter is at 2, not at 1.
\<close>

theorem memoize_counter_None_counts_twice:
  "(case memoize_counter \<lparr>heap = [Pure kf], globals = Map.empty\<rparr> (VFun 0) of
      (h, g, st) \<Rightarrow>
        (case call_twice 5 st g [VNone] of
           (r1, r2, st') \<Rightarrow> (r1, r2, get_count st' h)))
   = (Inr VNone, Inr VNone, Some 2)"
  by (simp add: memoize_counter_def memoize_def counter_def alloc_def kf_def
      call_twice_def get_count_def store_result_def dict_get_def eval_nat_numeral)

subsection \<open>Arguments that cannot be a key, and keyword arguments\<close>

text \<open>
  Claim C7. A call of a memoized function with an argument that cannot be hashed raises
  the error of the failed key (Python's \<^verbatim>\<open>TypeError: unhashable type\<close>, which the
  specification names \<^verbatim>\<open>UnhashableArgumentError\<close>); the state after the call is the
  state before it, so the wrapped function has not run, and the dictionary has as many
  entries as before.
\<close>

theorem unhashable_argument_raises:
  assumes "r < length (heap st)" and "heap st ! r = Lookup_f f results"
    and "\<not> list_all hashable args"
  shows "call (Suc d) st (VFun r) args [] = (Inl (TypeError ''unhashable type''), st)
       \<and> len_results (snd (call (Suc d) st (VFun r) args [])) (VFun r)
           = Some (length results)"
  using assms by (simp add: len_results_def results_of_def)

theorem unhashable_argument_raises_witness:
  "(2 < length (heap \<lparr>heap = [Pure kf, Cf (VFun 0) 0, Lookup_f (VFun 1) [([VInt 3], VInt 3)]],
                     globals = Map.empty\<rparr>)
    \<and> \<not> list_all hashable [VList [VInt 1]])
   \<and> call 5 \<lparr>heap = [Pure kf, Cf (VFun 0) 0, Lookup_f (VFun 1) [([VInt 3], VInt 3)]],
             globals = Map.empty\<rparr> (VFun 2) [VList [VInt 1]] []
      = (Inl (TypeError ''unhashable type''),
         \<lparr>heap = [Pure kf, Cf (VFun 0) 0, Lookup_f (VFun 1) [([VInt 3], VInt 3)]],
          globals = Map.empty\<rparr>)
   \<and> len_results
        (snd (call 5 \<lparr>heap = [Pure kf, Cf (VFun 0) 0, Lookup_f (VFun 1) [([VInt 3], VInt 3)]],
                      globals = Map.empty\<rparr> (VFun 2) [VList [VInt 1]] []))
        (VFun 2) = Some 1"
  using unhashable_argument_raises
    [of 2 "\<lparr>heap = [Pure kf, Cf (VFun 0) 0, Lookup_f (VFun 1) [([VInt 3], VInt 3)]],
            globals = Map.empty\<rparr>" "VFun 1" "[([VInt 3], VInt 3)]" "[VList [VInt 1]]" 4]
  by (simp add: len_results_def results_of_def eval_nat_numeral)

text \<open>
  Claim C9 does not hold on the source: \<^verbatim>\<open>lookup_f\<close> takes \<^verbatim>\<open>*args\<close> only, so a call
  with a keyword argument raises \<^verbatim>\<open>TypeError\<close> before anything else happens
  (\<open>call_Lookup_f_keyword\<close>), although line 129 says the result "can be called same as
  original" and the wrappers of \<^verbatim>\<open>negate\<close> and \<^verbatim>\<open>counter\<close> pass \<^verbatim>\<open>**kwargs\<close> on.
  With \<^verbatim>\<open>def kf(x): return x\<close>: the call \<^verbatim>\<open>kf(x=7)\<close> returns 7,
  \<^verbatim>\<open>memoize(kf)(x=7)\<close> raises, \<^verbatim>\<open>counter(kf)(x=7)\<close> returns 7.
\<close>

theorem keyword_call_raises:
  "fst (call 5 \<lparr>heap = [Pure kf], globals = Map.empty\<rparr> (VFun 0) [] [(''x'', VInt 7)])
     = Inr (VInt 7)
   \<and> (case memoize \<lparr>heap = [Pure kf], globals = Map.empty\<rparr> (VFun 0) of
        (g, st) \<Rightarrow> fst (call 5 st g [] [(''x'', VInt 7)]))
     = Inl (TypeError ''unexpected keyword argument'')
   \<and> (case counter \<lparr>heap = [Pure kf], globals = Map.empty\<rparr> (VFun 0) of
        (h, st) \<Rightarrow> fst (call 5 st h [] [(''x'', VInt 7)]))
     = Inr (VInt 7)"
  by (simp add: memoize_def counter_def alloc_def kf_def eval_nat_numeral)

subsection \<open>What the dictionary holds\<close>

text \<open>
  Claim C10, as stated, fails: the dictionary does hold \<^verbatim>\<open>None\<close>. After
  \<^verbatim>\<open>g = memoize(nothing)\<close> and the call \<^verbatim>\<open>g(1)\<close>, \<^verbatim>\<open>g.results\<close> is
  \<^verbatim>\<open>{(1,): None}\<close> and has one entry: line 124 stores every result.
\<close>

theorem cache_stores_None:
  "(case memoize \<lparr>heap = [Pure nothing], globals = Map.empty\<rparr> (VFun 0) of
      (g, st) \<Rightarrow>
        (case call 5 st g [VInt 1] [] of
           (r, st') \<Rightarrow> (r, results_of st' g, len_results st' g)))
   = (Inr VNone, Some [([VInt 1], VNone)], Some 1)"
  by (simp add: memoize_def alloc_def nothing_def len_results_def
      results_of_def store_result_def dict_get_def eval_nat_numeral)

text \<open>
  Claim C10, amended. The dictionary stores every result the wrapped function returns,
  \<^verbatim>\<open>None\<close> included: after a call that found no value other than \<^verbatim>\<open>None\<close> under its
  arguments and computed \<open>v\<close>, the arguments are a key with the value \<open>v\<close>. What every
  call of the wrapper of a pure function preserves is each entry whose value is not
  \<^verbatim>\<open>None\<close>: such a key is never overwritten and never removed.
\<close>

theorem cache_entries_kept:
  assumes "r < length (heap st)" and "heap st ! r = Lookup_f (VFun q) results"
    and "q < length (heap st)" and "heap st ! q = Pure p"
    and "list_all hashable args"
  shows "\<exists>results'.
       results_of (snd (call (Suc (Suc d)) st (VFun r) args [])) (VFun r) = Some results'
     \<and> (\<forall>k v. map_of results k = Some v \<and> v \<noteq> VNone \<longrightarrow> map_of results' k = Some v)
     \<and> (\<forall>v. dict_get results args = VNone \<and> p args [] = Inr v
            \<longrightarrow> map_of results' args = Some v)"
proof (cases "dict_get results args = VNone")
  case False
  then show ?thesis using assms by (simp add: results_of_def)
next
  case True
  show ?thesis
  proof (cases "p args []")
    case (Inl e)
    then show ?thesis using assms True by (simp add: results_of_def)
  next
    case (Inr v)
    then show ?thesis using assms True
      by (auto simp: results_of_def store_result_def update_conv' dict_get_def)
  qed
qed

theorem cache_entries_kept_witness:
  "(1 < length (heap \<lparr>heap = [Pure nothing, Lookup_f (VFun 0) [([VInt 2], VInt 7)]],
                     globals = Map.empty\<rparr>)
    \<and> list_all hashable [VInt 1])
   \<and> (\<exists>results'.
        results_of
          (snd (call 5 \<lparr>heap = [Pure nothing, Lookup_f (VFun 0) [([VInt 2], VInt 7)]],
                        globals = Map.empty\<rparr> (VFun 1) [VInt 1] []))
          (VFun 1) = Some results'
      \<and> map_of results' [VInt 2] = Some (VInt 7)
      \<and> map_of results' [VInt 1] = Some VNone)"
proof -
  let ?st = "\<lparr>heap = [Pure nothing, Lookup_f (VFun 0) [([VInt 2], VInt 7)]],
              globals = Map.empty\<rparr>"
  have hyps: "1 < length (heap ?st)" "heap ?st ! 1 = Lookup_f (VFun 0) [([VInt 2], VInt 7)]"
    "0 < length (heap ?st)" "heap ?st ! 0 = Pure nothing" "list_all hashable [VInt 1]"
    by simp_all
  from cache_entries_kept [OF hyps, of 3]
  obtain results' where
    res: "results_of (snd (call (Suc (Suc 3)) ?st (VFun 1) [VInt 1] [])) (VFun 1)
            = Some results'"
    and kept: "\<forall>k v. map_of [([VInt 2], VInt 7)] k = Some v \<and> v \<noteq> VNone
                 \<longrightarrow> map_of results' k = Some v"
    and stored: "\<forall>v. dict_get [([VInt 2], VInt 7)] [VInt 1] = VNone
                   \<and> nothing [VInt 1] [] = Inr v \<longrightarrow> map_of results' [VInt 1] = Some v"
    by blast
  have "map_of results' [VInt 2] = Some (VInt 7)"
    using kept by simp
  moreover have "map_of results' [VInt 1] = Some VNone"
    using stored by (simp add: dict_get_def nothing_def)
  moreover have "Suc (Suc 3) = (5::nat)" by simp
  ultimately show ?thesis using res by simp
qed

subsection \<open>The memoizer applied to itself\<close>

text \<open>
  Claim C3. In a state where \<^verbatim>\<open>memoize\<close> names the function of line 117, after
  \<^verbatim>\<open>memoize = memoize(memoize)\<close> two calls \<^verbatim>\<open>memoize(g)\<close> with the same target
  function return the same object: the first call creates the closure around \<open>g\<close>, with
  an empty dictionary, and the second returns that closure.
\<close>

theorem self_memoized_same_object:
  assumes "globals st ''memoize'' = Some (VFun m)" and "m < length (heap st)"
    and "heap st ! m = Def_memoize"
  shows "(case assign_call (Suc d) st ''memoize'' ''memoize'' ''memoize'' of
            (w, st1) \<Rightarrow>
              (case call_global (Suc (Suc d)) st1 ''memoize'' [VFun t] of
                 (f1, st2) \<Rightarrow>
                   (case call_global (Suc (Suc d)) st2 ''memoize'' [VFun t] of
                      (f2, st3) \<Rightarrow>
                        (w, f1, f2, heap st3 ! Suc (length (heap st))))))
         = (Inr (VFun (length (heap st))), Inr (VFun (Suc (length (heap st)))),
            Inr (VFun (Suc (length (heap st)))), Lookup_f (VFun t) [])"
  using assms
  by (simp add: assign_call_def call_global_def memoize_def alloc_def
      store_result_def dict_get_def nth_append list_update_append)

theorem self_memoized_same_object_witness:
  "(globals module_state ''memoize'' = Some (VFun 0) \<and> 0 < length (heap module_state)
    \<and> heap module_state ! 0 = Def_memoize)
   \<and> (case assign_call 4 module_state ''memoize'' ''memoize'' ''memoize'' of
            (w, st1) \<Rightarrow>
              (case call_global 5 st1 ''memoize'' [VFun 1] of
                 (f1, st2) \<Rightarrow>
                   (case call_global 5 st2 ''memoize'' [VFun 1] of
                      (f2, st3) \<Rightarrow> (w, f1, f2, heap st3 ! 3))))
         = (Inr (VFun 2), Inr (VFun 3), Inr (VFun 3), Lookup_f (VFun 1) [])"
proof -
  have hyps: "globals module_state ''memoize'' = Some (VFun 0)"
    "0 < length (heap module_state)" "heap module_state ! 0 = Def_memoize"
    by (simp_all add: module_state_def)
  have len: "length (heap module_state) = 2" by (simp add: module_state_def)
  show ?thesis
    using hyps self_memoized_same_object [OF hyps, of 3 1]
    by (simp add: len eval_nat_numeral)
qed

text \<open>
  The same holds in every later state, whatever the dictionary of the memoized
  \<^verbatim>\<open>memoize\<close> has come to hold: two calls in a row with the same target return the same
  value.
\<close>

lemma memoized_memoize_stable:
  assumes "globals st ''memoize'' = Some (VFun w)" and "w < length (heap st)"
    and "heap st ! w = Lookup_f (VFun m) results"
    and "m < length (heap st)" and "heap st ! m = Def_memoize"
  shows "\<exists>f1. fst (call_global (Suc (Suc d)) st ''memoize'' [VFun t]) = Inr f1
     \<and> fst (call_global (Suc (Suc d))
              (snd (call_global (Suc (Suc d)) st ''memoize'' [VFun t])) ''memoize'' [VFun t])
         = Inr f1"
  using assms
  by (cases "dict_get results [VFun t] = VNone")
     (simp_all add: call_global_def memoize_def alloc_def
      store_result_def dict_get_def nth_append list_update_append update_conv')

text \<open>
  Claim C2, as stated, fails: after \<^verbatim>\<open>memoize = memoize(memoize)\<close> in the state of the
  module, with \<open>f\<close> the function of line 136, \<^verbatim>\<open>memoize(memoize(f))\<close> is the object at
  address 4 and \<^verbatim>\<open>memoize(f)\<close> the object at address 3, so \<^verbatim>\<open>is\<close> gives false.
\<close>

theorem rewrap_not_identical:
  "(case assign_call 5 module_state ''memoize'' ''memoize'' ''memoize'' of
      (w, st1) \<Rightarrow> fst (rewrap_is_wrap 5 st1 (VFun 1)))
   = Inr (False, VFun 4, VFun 3)"
  by (simp add: assign_call_def call_global_def rewrap_is_wrap_def memoize_def alloc_def
      store_result_def dict_get_def module_state_def eval_nat_numeral)

text \<open>
  Claim C2, amended. Wrapping an already memoized function again gives a new wrapper
  around the wrapper, not the wrapper itself: for every function object \<open>f\<close>,
  \<^verbatim>\<open>memoize(memoize(f)) is memoize(f)\<close> is false, both with the \<^verbatim>\<open>memoize\<close> of line 117
  and after \<^verbatim>\<open>memoize = memoize(memoize)\<close>; in the second case \<^verbatim>\<open>memoize(memoize(f))\<close>
  is a closure with an empty dictionary whose wrapped function is the object
  \<^verbatim>\<open>memoize(f)\<close>.
\<close>

theorem rewrap_creates_new_wrapper:
  assumes "globals st ''memoize'' = Some (VFun m)" and "m < length (heap st)"
    and "heap st ! m = Def_memoize" and "t < length (heap st)"
  shows "fst (rewrap_is_wrap (Suc d) st (VFun t))
           = Inr (False, VFun (Suc (length (heap st))), VFun (Suc (Suc (length (heap st)))))
       \<and> (case assign_call (Suc d) st ''memoize'' ''memoize'' ''memoize'' of
            (w, st1) \<Rightarrow>
              (case rewrap_is_wrap (Suc (Suc d)) st1 (VFun t) of
                 (b, st2) \<Rightarrow> (b, heap st2 ! (length (heap st) + 2))))
         = (Inr (False, VFun (length (heap st) + 2), VFun (length (heap st) + 1)),
            Lookup_f (VFun (length (heap st) + 1)) [])"
  using assms
  by (simp add: assign_call_def call_global_def rewrap_is_wrap_def memoize_def alloc_def
      store_result_def dict_get_def nth_append list_update_append)

theorem rewrap_creates_new_wrapper_witness:
  "(globals module_state ''memoize'' = Some (VFun 0) \<and> 0 < length (heap module_state)
    \<and> heap module_state ! 0 = Def_memoize \<and> 1 < length (heap module_state))
   \<and> fst (rewrap_is_wrap 4 module_state (VFun 1)) = Inr (False, VFun 3, VFun 4)
   \<and> (case assign_call 4 module_state ''memoize'' ''memoize'' ''memoize'' of
            (w, st1) \<Rightarrow>
              (case rewrap_is_wrap 5 st1 (VFun 1) of
                 (b, st2) \<Rightarrow> (b, heap st2 ! 4)))
         = (Inr (False, VFun 4, VFun 3), Lookup_f (VFun 3) [])"
proof -
  have hyps: "globals module_state ''memoize'' = Some (VFun 0)"
    "0 < length (heap module_state)" "heap module_state ! 0 = Def_memoize"
    "1 < length (heap module_state)"
    by (simp_all add: module_state_def)
  have len: "length (heap module_state) = 2" by (simp add: module_state_def)
  show ?thesis
    using hyps rewrap_creates_new_wrapper [OF hyps, of 3]
    by (simp add: len eval_nat_numeral)
qed

subsection \<open>The memoized Fibonacci recursion\<close>

text \<open>
  Claim C8. In a state where \<^verbatim>\<open>memoize\<close> and \<^verbatim>\<open>fib\<close> name the functions of lines 117
  and 136, after \<^verbatim>\<open>fib = memoize(fib)\<close> the name \<^verbatim>\<open>fib\<close> is bound to the wrapper, so
  the body of line 140 recurses through it. With room for twenty frames or more, the call
  \<^verbatim>\<open>fib(10)\<close> returns 89 and leaves eleven entries in the dictionary of the wrapper,
  one for each \<open>n\<close> from 0 to 10.
\<close>

theorem memoized_fib_10:
  assumes "globals st ''memoize'' = Some (VFun m)" and "m < length (heap st)"
    and "heap st ! m = Def_memoize"
    and "globals st ''fib'' = Some (VFun b)" and "b < length (heap st)"
    and "heap st ! b = Def_fib"
  shows "(case assign_call (Suc d) st ''fib'' ''memoize'' ''fib'' of
      (g, st1) \<Rightarrow>
        (case call_global (d + 20) st1 ''fib'' [VInt 10] of
           (r, st2) \<Rightarrow>
             (g, globals st1 ''fib'', r, len_results st2 (VFun (length (heap st))),
              results_of st2 (VFun (length (heap st))))))
   = (Inr (VFun (length (heap st))), Some (VFun (length (heap st))), Inr (VInt 89), Some 11,
      Some [([VInt 1], VInt 1), ([VInt 0], VInt 1), ([VInt 2], VInt 2),
            ([VInt 3], VInt 3), ([VInt 4], VInt 5), ([VInt 5], VInt 8),
            ([VInt 6], VInt 13), ([VInt 7], VInt 21), ([VInt 8], VInt 34),
            ([VInt 9], VInt 55), ([VInt 10], VInt 89)])"
  using assms
  by (simp add: assign_call_def call_global_def memoize_def alloc_def
      len_results_def results_of_def store_result_def dict_get_def eval_nat_numeral
      nth_append list_update_append)

theorem memoized_fib_10_witness:
  "(globals module_state ''memoize'' = Some (VFun 0) \<and> 0 < length (heap module_state)
    \<and> heap module_state ! 0 = Def_memoize
    \<and> globals module_state ''fib'' = Some (VFun 1) \<and> 1 < length (heap module_state)
    \<and> heap module_state ! 1 = Def_fib)
   \<and> (case assign_call 1 module_state ''fib'' ''memoize'' ''fib'' of
      (g, st1) \<Rightarrow>
        (case call_global 20 st1 ''fib'' [VInt 10] of
           (r, st2) \<Rightarrow> (g, globals st1 ''fib'', r, len_results st2 (VFun 2))))
   = (Inr (VFun 2), Some (VFun 2), Inr (VInt 89), Some 11)"
proof -
  have hyps: "globals module_state ''memoize'' = Some (VFun 0)"
    "0 < length (heap module_state)" "heap module_state ! 0 = Def_memoize"
    "globals module_state ''fib'' = Some (VFun 1)"
    "1 < length (heap module_state)" "heap module_state ! 1 = Def_fib"
    by (simp_all add: module_state_def)
  have len: "length (heap module_state) = 2" by (simp add: module_state_def)
  show ?thesis
    using hyps memoized_fib_10 [OF hyps, of 0]
    by (auto simp: len split: prod.splits)
qed

end
